theory Spec2Isabelle
  imports Complex_Main
begin

chapter \<open>The job-search web client: model\<close>

section \<open>JavaScript strings and numbers\<close>

text \<open>
  A JavaScript string is modelled as a \<^typ>\<open>string\<close> (a list of characters). The
  white space that \<open>String.prototype.trim\<close> and \<open>parseInt\<close> strip is the
  \<open>WhiteSpace\<close> and \<open>LineTerminator\<close> code points that fit a \<^typ>\<open>char\<close>:
  TAB, LF, VT, FF, CR, SP and NBSP.
\<close>

definition isWhiteSpace :: "char \<Rightarrow> bool" where
  "isWhiteSpace c = ((of_char c :: nat) \<in> {9, 10, 11, 12, 13, 32, 160})"

definition trimStart :: "string \<Rightarrow> string" where
  "trimStart s = dropWhile isWhiteSpace s"

definition trimEnd :: "string \<Rightarrow> string" where
  "trimEnd s = rev (dropWhile isWhiteSpace (rev s))"

definition trim :: "string \<Rightarrow> string" where
  "trim s = trimEnd (trimStart s)"

text \<open>
  \<open>parseInt(string)\<close> with no radix argument: strip leading white space, read an
  optional sign, switch to radix 16 after a \<open>0x\<close> or \<open>0X\<close> prefix, and read the
  longest run of digits of the radix. No digit at all gives \<open>NaN\<close>, which is
  \<^const>\<open>None\<close> here. The result is an exact integer (a double in JavaScript, exact
  below \<open>2^53\<close>).
\<close>

definition digitValue :: "char \<Rightarrow> nat option" where
  "digitValue c =
    (let n = (of_char c :: nat) in
     if 48 \<le> n \<and> n \<le> 57 then Some (n - 48)
     else if 97 \<le> n \<and> n \<le> 122 then Some (n - 87)
     else if 65 \<le> n \<and> n \<le> 90 then Some (n - 55)
     else None)"

definition isRadixDigit :: "nat \<Rightarrow> char \<Rightarrow> bool" where
  "isRadixDigit R c = (case digitValue c of None \<Rightarrow> False | Some d \<Rightarrow> d < R)"

definition radixValue :: "nat \<Rightarrow> string \<Rightarrow> nat" where
  "radixValue R Z =
    foldl (\<lambda>acc c. case digitValue c of None \<Rightarrow> acc | Some d \<Rightarrow> acc * R + d) 0 Z"

definition parseInt :: "string \<Rightarrow> int option" where
  "parseInt string =
    (let S0 = trimStart string;
         sign = (if S0 \<noteq> [] \<and> hd S0 = CHR ''-'' then - 1 else (1 :: int));
         S1 = (if S0 \<noteq> [] \<and> (hd S0 = CHR ''+'' \<or> hd S0 = CHR ''-'') then tl S0 else S0);
         hex = (take 2 S1 = ''0x'' \<or> take 2 S1 = ''0X'');
         R = (if hex then 16 else 10);
         S2 = (if hex then drop 2 S1 else S1);
         Z = takeWhile (isRadixDigit R) S2
     in if Z = [] then None else Some (sign * int (radixValue R Z)))"

text \<open>\<open>n || d\<close> on a number: \<open>NaN\<close> and \<open>0\<close> are falsy.\<close>

definition orDefault :: "int option \<Rightarrow> int \<Rightarrow> int" where
  "orDefault n d = (case n of None \<Rightarrow> d | Some v \<Rightarrow> if v = 0 then d else v)"


section \<open>The Job Discovery form (JobDiscovery.js)\<close>

text \<open>
  The component keeps four pieces of state: \<open>searchParams\<close>, \<open>isSearching\<close>,
  \<open>searchResults\<close> and \<open>newKeyword\<close>. An event handler runs on the state of the last
  render and its updates are applied before the next event is handled, so a handler is
  a function from the state to the next state.
\<close>

record search_params =
  keywords_sp :: "string list"
  location :: string
  jobType :: string
  platforms :: "string list"
  maxResultsPerPlatform :: int

record search_response =
  search_id :: string
  platforms_resp :: "string list"

record job_discovery =
  searchParams :: search_params
  isSearching :: bool
  searchResults :: "search_response option"
  newKeyword :: string

definition initial_discovery :: job_discovery where
  "initial_discovery =
    \<lparr> searchParams =
        \<lparr> keywords_sp = [''machine learning'', ''AI'', ''translation'', ''linguistic'',
                       ''quality assessment''],
          location = '''',
          jobType = ''remote'',
          platforms = [],
          maxResultsPerPlatform = 50 \<rparr>,
      isSearching = False,
      searchResults = None,
      newKeyword = '''' \<rparr>"

definition platform_ids :: "string list" where
  "platform_ids = [''flexjobs'', ''remotive'', ''weworkremotely'', ''remote_co'', ''contra'',
                   ''toptal'', ''upwork'']"

text \<open>\<open>setSearchParams(prev => ...)\<close>: a functional update of \<open>searchParams\<close>.\<close>

definition setSearchParams :: "(search_params \<Rightarrow> search_params) \<Rightarrow> job_discovery \<Rightarrow> job_discovery" where
  "setSearchParams f st = st\<lparr>searchParams := f (searchParams st)\<rparr>"

definition setNewKeyword :: "string \<Rightarrow> job_discovery \<Rightarrow> job_discovery" where
  "setNewKeyword s st = st\<lparr>newKeyword := s\<rparr>"

definition handleKeywordAdd :: "job_discovery \<Rightarrow> job_discovery" where
  "handleKeywordAdd st =
    (if trim (newKeyword st) \<noteq> [] \<and> trim (newKeyword st) \<notin> set (keywords_sp (searchParams st))
     then setNewKeyword ''''
            (setSearchParams (\<lambda>prev. prev\<lparr>keywords_sp := keywords_sp prev @ [trim (newKeyword st)]\<rparr>) st)
     else st)"

definition handleKeywordRemove :: "string \<Rightarrow> job_discovery \<Rightarrow> job_discovery" where
  "handleKeywordRemove keyword =
    setSearchParams (\<lambda>prev. prev\<lparr>keywords_sp := filter (\<lambda>k. k \<noteq> keyword) (keywords_sp prev)\<rparr>)"

definition handlePlatformToggle :: "string \<Rightarrow> job_discovery \<Rightarrow> job_discovery" where
  "handlePlatformToggle platformId =
    setSearchParams (\<lambda>prev. prev\<lparr>platforms :=
      (if platformId \<in> set (platforms prev)
       then filter (\<lambda>p. p \<noteq> platformId) (platforms prev)
       else platforms prev @ [platformId])\<rparr>)"

text \<open>The \<open>onChange\<close> handlers of the location, job type and max-results inputs.\<close>

definition location_onChange :: "string \<Rightarrow> job_discovery \<Rightarrow> job_discovery" where
  "location_onChange v = setSearchParams (\<lambda>prev. prev\<lparr>location := v\<rparr>)"

definition jobType_onChange :: "string \<Rightarrow> job_discovery \<Rightarrow> job_discovery" where
  "jobType_onChange v = setSearchParams (\<lambda>prev. prev\<lparr>jobType := v\<rparr>)"

definition maxResults_onChange :: "string \<Rightarrow> job_discovery \<Rightarrow> job_discovery" where
  "maxResults_onChange v =
    setSearchParams (\<lambda>prev. prev\<lparr>maxResultsPerPlatform := orDefault (parseInt v) 50\<rparr>)"

text \<open>
  The body of \<open>POST /api/jobs/search\<close>. \<open>platforms\<close> is \<open>null\<close> (\<^const>\<open>None\<close>) or
  an array.
\<close>

record search_data =
  keywords_body :: "string list"
  location_body :: string
  job_type :: string
  platforms_body :: "string list option"
  max_results_per_platform :: int

definition searchData :: "search_params \<Rightarrow> search_data" where
  "searchData sp =
    \<lparr> keywords_body = keywords_sp sp,
      location_body = location sp,
      job_type = jobType sp,
      platforms_body = (if length (platforms sp) > 0 then Some (platforms sp) else None),
      max_results_per_platform = maxResultsPerPlatform sp \<rparr>"

text \<open>
  \<open>handleSearch\<close> is asynchronous. Up to its \<open>await\<close> it marks the form as searching,
  clears the last result and posts \<open>searchData\<close>; when the request settles, with a
  response or with a failure (\<^const>\<open>None\<close>), it stores the response and clears
  \<open>isSearching\<close>.
\<close>

definition handleSearch :: "job_discovery \<Rightarrow> job_discovery \<times> search_data" where
  "handleSearch st =
    (st\<lparr>isSearching := True, searchResults := None\<rparr>, searchData (searchParams st))"

definition handleSearch_settled :: "search_response option \<Rightarrow> job_discovery \<Rightarrow> job_discovery" where
  "handleSearch_settled r st =
    (case r of
       Some data \<Rightarrow> st\<lparr>searchResults := Some data, isSearching := False\<rparr>
     | None \<Rightarrow> st\<lparr>isSearching := False\<rparr>)"

text \<open>The \<open>disabled\<close> attribute of the search button.\<close>

definition search_disabled :: "job_discovery \<Rightarrow> bool" where
  "search_disabled st = (isSearching st \<or> length (keywords_sp (searchParams st)) = 0)"

text \<open>
  The events of the form. \<open>handleSearch\<close> is bound to the search button only, and a
  disabled button delivers no click. A key press in the keyword input adds the keyword
  when the key is \<open>Enter\<close>. Each step returns the next state and the request bodies it
  posted.
\<close>

datatype event =
    NewKeywordChange string
  | NewKeywordKeyPress string
  | AddClick
  | RemoveClick string
  | LocationChange string
  | JobTypeChange string
  | PlatformChange string
  | MaxResultsChange string
  | SearchClick
  | SearchSettled "search_response option"

fun step :: "event \<Rightarrow> job_discovery \<Rightarrow> job_discovery \<times> search_data list" where
  "step (NewKeywordChange v) st = (setNewKeyword v st, [])"
| "step (NewKeywordKeyPress key) st = (if key = ''Enter'' then handleKeywordAdd st else st, [])"
| "step AddClick st = (handleKeywordAdd st, [])"
| "step (RemoveClick keyword) st = (handleKeywordRemove keyword st, [])"
| "step (LocationChange v) st = (location_onChange v st, [])"
| "step (JobTypeChange v) st = (jobType_onChange v st, [])"
| "step (PlatformChange platformId) st = (handlePlatformToggle platformId st, [])"
| "step (MaxResultsChange v) st = (maxResults_onChange v st, [])"
| "step SearchClick st =
     (if search_disabled st then (st, [])
      else (fst (handleSearch st), [snd (handleSearch st)]))"
| "step (SearchSettled r) st = (handleSearch_settled r st, [])"

fun run :: "event list \<Rightarrow> job_discovery \<Rightarrow> job_discovery \<times> search_data list" where
  "run [] st = (st, [])"
| "run (e # es) st =
     (case step e st of (st', posted) \<Rightarrow>
        (case run es st' of (st'', posted') \<Rightarrow> (st'', posted @ posted')))"

text \<open>
  The invariant of the keyword list: no keyword twice, and every keyword is its own
  trimmed form and is not empty.
\<close>

definition keywords_ok :: "string list \<Rightarrow> bool" where
  "keywords_ok ks = (distinct ks \<and> list_all (\<lambda>k. trim k \<noteq> [] \<and> trim k = k) ks)"



section \<open>The API base address\<close>








section \<open>URLSearchParams and number rendering\<close>














section \<open>The Job List page (JobList.js)\<close>

record filters =
  source :: string
  applied :: string
  limit :: "int option"

definition initial_filters :: filters where
  "initial_filters = \<lparr> source = [], applied = [], limit = Some 50 \<rparr>"

definition source_onChange :: "string \<Rightarrow> filters \<Rightarrow> filters" where
  "source_onChange v prev = prev\<lparr>source := v\<rparr>"

definition applied_onChange :: "string \<Rightarrow> filters \<Rightarrow> filters" where
  "applied_onChange v prev = prev\<lparr>applied := v\<rparr>"

definition limit_onChange :: "string \<Rightarrow> filters \<Rightarrow> filters" where
  "limit_onChange v prev = prev\<lparr>limit := parseInt v\<rparr>"






section \<open>The requests of the other modules\<close>















section \<open>The Profile form (Profile.js)\<close>

text \<open>
  \<open>formData\<close> is an object: a property is absent (\<open>undefined\<close>), a string, or an
  array. An array element is a string, or \<^const>\<open>None\<close> for a slot that an assignment
  past the end left empty.
\<close>

datatype field_value = Text string | Items "string option list"

type_synonym form_data = "string \<Rightarrow> field_value option"

datatype js_error = TypeError

text \<open>
  The spread \<open>[...v]\<close>: \<open>undefined\<close> is not iterable, a string spreads into its
  characters, an array into its elements.
\<close>

definition spread :: "field_value option \<Rightarrow> js_error + string option list" where
  "spread v =
    (case v of
       None \<Rightarrow> Inl TypeError
     | Some (Text s) \<Rightarrow> Inr (map (\<lambda>c. Some [c]) s)
     | Some (Items xs) \<Rightarrow> Inr xs)"

text \<open>
  \<open>a.splice(index, 1)\<close> removes one element at \<open>index\<close>, and nothing when \<open>index\<close>
  is past the end. \<open>a[index] = value\<close> replaces an element, and past the end it
  extends the array, leaving the slots between empty.
\<close>

definition splice1 :: "nat \<Rightarrow> 'a list \<Rightarrow> 'a list" where
  "splice1 index a = take index a @ drop (Suc index) a"

definition assign_index :: "nat \<Rightarrow> 'a \<Rightarrow> 'a option list \<Rightarrow> 'a option list" where
  "assign_index index v a =
    (if index < length a then a[index := Some v]
     else a @ replicate (index - length a) None @ [Some v])"

definition updateArrayField :: "string \<Rightarrow> nat \<Rightarrow> string \<Rightarrow> form_data \<Rightarrow> js_error + form_data" where
  "updateArrayField field index v formData =
    (case spread (formData field) of
       Inl e \<Rightarrow> Inl e
     | Inr newArray \<Rightarrow>
         Inr (formData(field \<mapsto>
           Items (if v = [] then splice1 index newArray else assign_index index v newArray))))"

text \<open>\<open>prev[field] || []\<close>: \<open>undefined\<close> and the empty string are falsy.\<close>

definition addToArrayField :: "string \<Rightarrow> form_data \<Rightarrow> js_error + form_data" where
  "addToArrayField field prev =
    (case spread (if prev field = None \<or> prev field = Some (Text []) then Some (Items [])
                  else prev field) of
       Inl e \<Rightarrow> Inl e
     | Inr a \<Rightarrow> Inr (prev(field \<mapsto> Items (a @ [Some []]))))"


section \<open>The Analytics page (Analytics.js)\<close>

text \<open>
  A JavaScript number that results from a division: a finite value, an infinity or
  \<open>NaN\<close>. Finite values are exact rationals here; the counts are integers, and a
  property of the metrics object may be absent.
\<close>

datatype number = Num rat | PosInfinity | NegInfinity | NaN

definition divide_num :: "rat \<Rightarrow> rat \<Rightarrow> number" where
  "divide_num a b =
    (if b \<noteq> 0 then Num (a / b)
     else if a = 0 then NaN
     else if a > 0 then PosInfinity else NegInfinity)"

definition times_num :: "number \<Rightarrow> rat \<Rightarrow> number" where
  "times_num x k =
    (case x of
       Num r \<Rightarrow> Num (r * k)
     | PosInfinity \<Rightarrow> (if k > 0 then PosInfinity else if k < 0 then NegInfinity else NaN)
     | NegInfinity \<Rightarrow> (if k > 0 then NegInfinity else if k < 0 then PosInfinity else NaN)
     | NaN \<Rightarrow> NaN)"

record metrics =
  total_applications :: "int option"
  interviewing :: "int option"
  rejected :: "int option"
  pending_applications :: "int option"

record email_log =
  status :: string

definition totalApplications :: "metrics \<Rightarrow> int" where
  "totalApplications m = orDefault (total_applications m) 0"

definition interviewRate :: "metrics \<Rightarrow> number" where
  "interviewRate m =
    (if totalApplications m > 0
     then times_num (divide_num (of_int (orDefault (interviewing m) 0)) (of_int (totalApplications m))) 100
     else Num 0)"

definition rejectionRate :: "metrics \<Rightarrow> number" where
  "rejectionRate m =
    (if totalApplications m > 0
     then times_num (divide_num (of_int (orDefault (rejected m) 0)) (of_int (totalApplications m))) 100
     else Num 0)"

definition pendingRate :: "metrics \<Rightarrow> number" where
  "pendingRate m =
    (if totalApplications m > 0
     then times_num (divide_num (of_int (orDefault (pending_applications m) 0)) (of_int (totalApplications m))) 100
     else Num 0)"

definition sentEmails :: "email_log list \<Rightarrow> nat" where
  "sentEmails emailLogs = length (filter (\<lambda>log. status log = ''sent'') emailLogs)"

definition failedEmails :: "email_log list \<Rightarrow> nat" where
  "failedEmails emailLogs = length (filter (\<lambda>log. status log = ''failed'') emailLogs)"

definition emailSuccessRate :: "email_log list \<Rightarrow> number" where
  "emailSuccessRate emailLogs =
    (if length emailLogs > 0
     then times_num (divide_num (of_nat (sentEmails emailLogs)) (of_nat (length emailLogs))) 100
     else Num 0)"


section \<open>The backend contracts the client relies on\<close>

text \<open>
  Modelled from the spec: the backend (the Discovery Orchestrator and the Relevance
  Scorer) is not among the source files, which hold the web client only. The two
  definitions of this section follow the words of the specification.
\<close>

datatype api_error =
    ValidationError
  | NotFoundError
  | AdapterError
  | GenerationError
  | EmailDeliveryError
  | ConcurrencyConflict

text \<open>
  Modelled from the spec: \<open>StartSearch\<close> returns a search identifier immediately and
  rejects with \<open>ValidationError\<close> if \<open>keywords\<close> is empty. The identifier it hands out
  is a parameter.
\<close>

definition StartSearch :: "'id \<Rightarrow> search_data \<Rightarrow> api_error + 'id" where
  "StartSearch fresh_id req =
    (if keywords_body req = [] then Inl ValidationError else Inr fresh_id)"

text \<open>
  Modelled from the spec: a keyword appears in a job text when it is a case-insensitive
  substring of it. Both strings are lower-cased (the ASCII letters) and compared.
\<close>

definition toLowerChar :: "char \<Rightarrow> char" where
  "toLowerChar c =
    (let n = (of_char c :: nat) in if 65 \<le> n \<and> n \<le> 90 then char_of (n + 32) else c)"

definition toLowerCase :: "string \<Rightarrow> string" where
  "toLowerCase s = map toLowerChar s"

fun startsWith :: "string \<Rightarrow> string \<Rightarrow> bool" where
  "startsWith s [] = True"
| "startsWith [] (p # ps) = False"
| "startsWith (c # cs) (p # ps) = (c = p \<and> startsWith cs ps)"

fun includes_str :: "string \<Rightarrow> string \<Rightarrow> bool" where
  "includes_str [] p = (p = [])"
| "includes_str (c # cs) p = (startsWith (c # cs) p \<or> includes_str cs p)"

definition appears_in :: "string \<Rightarrow> string \<Rightarrow> bool" where
  "appears_in job_text keyword = includes_str (toLowerCase job_text) (toLowerCase keyword)"

text \<open>
  Modelled from the spec: \<open>Score(job_text, profile_keywords)\<close> of the Relevance
  Scorer. The score is the count of distinct profile keywords appearing as
  case-insensitive substrings of the job text, divided by the count of profile keywords
  and capped at 1; \<open>matched_keywords\<close> keeps the order in which the profile supplies
  the keywords; with no profile keyword the score is 0 and nothing matches. The profile
  keywords are a set, given as the list in which the profile supplies them: both counts
  are counts of distinct keywords.
\<close>

definition matched_keywords :: "string \<Rightarrow> string list \<Rightarrow> string list" where
  "matched_keywords job_text profile_keywords = filter (appears_in job_text) profile_keywords"

definition Score :: "string \<Rightarrow> string list \<Rightarrow> rat \<times> string list" where
  "Score job_text profile_keywords =
    (let matched = matched_keywords job_text profile_keywords in
     if length (remdups profile_keywords) = 0 then (0, [])
     else (min 1 (of_nat (length (remdups matched)) / of_nat (length (remdups profile_keywords))),
           matched))"


chapter \<open>Properties\<close>

section \<open>Platform selection\<close>

lemma platforms_toggle:
  "platforms (searchParams (handlePlatformToggle p st)) =
     (if p \<in> set (platforms (searchParams st))
      then filter (\<lambda>q. q \<noteq> p) (platforms (searchParams st))
      else platforms (searchParams st) @ [p])"
  by (simp add: handlePlatformToggle_def setSearchParams_def)

text \<open>
  C8, as amended. On a duplicate-free selection, one \<open>handlePlatformToggle p\<close> appends
  \<open>p\<close> when it is absent and removes it when it is present, and the selection stays
  duplicate-free. Toggling twice gives back the same set of platform ids: the very same
  list when \<open>p\<close> was absent, and the list with \<open>p\<close> moved to its end when \<open>p\<close> was
  present.
\<close>

theorem toggle_twice_same_set:
  assumes "distinct (platforms (searchParams st))"
  shows "platforms (searchParams (handlePlatformToggle p st)) =
           (if p \<in> set (platforms (searchParams st))
            then filter (\<lambda>q. q \<noteq> p) (platforms (searchParams st))
            else platforms (searchParams st) @ [p])
       \<and> distinct (platforms (searchParams (handlePlatformToggle p st)))
       \<and> platforms (searchParams (handlePlatformToggle p (handlePlatformToggle p st))) =
           (if p \<in> set (platforms (searchParams st))
            then filter (\<lambda>q. q \<noteq> p) (platforms (searchParams st)) @ [p]
            else platforms (searchParams st))
       \<and> set (platforms (searchParams (handlePlatformToggle p (handlePlatformToggle p st)))) =
           set (platforms (searchParams st))
       \<and> distinct (platforms (searchParams (handlePlatformToggle p (handlePlatformToggle p st))))"
  using assms by (auto simp: platforms_toggle filter_id_conv)

text \<open>
  The theorem at the selection \<open>[flexjobs, remotive]\<close>, reached from the initial form by
  ticking the two boxes, with \<open>flexjobs\<close> toggled.
\<close>

theorem toggle_twice_same_set_witness:
  "distinct (platforms (searchParams
      (fst (run [PlatformChange ''flexjobs'', PlatformChange ''remotive''] initial_discovery))))
   \<and> set (platforms (searchParams (handlePlatformToggle ''flexjobs'' (handlePlatformToggle ''flexjobs''
      (fst (run [PlatformChange ''flexjobs'', PlatformChange ''remotive''] initial_discovery)))))) =
     {''flexjobs'', ''remotive''}
   \<and> distinct (platforms (searchParams (handlePlatformToggle ''flexjobs''
      (fst (run [PlatformChange ''flexjobs'', PlatformChange ''remotive''] initial_discovery)))))"
  using toggle_twice_same_set [of
      "fst (run [PlatformChange ''flexjobs'', PlatformChange ''remotive''] initial_discovery)"
      "''flexjobs''"]
  by (simp add: initial_discovery_def handlePlatformToggle_def setSearchParams_def)

text \<open>
  C8 as stated fails: with \<open>[flexjobs, remotive]\<close> selected, unticking and ticking
  \<open>flexjobs\<close> leaves \<open>[remotive, flexjobs]\<close>, another list.
\<close>

theorem toggle_twice_counterexample:
  "distinct (platforms (searchParams
      (fst (run [PlatformChange ''flexjobs'', PlatformChange ''remotive''] initial_discovery))))
   \<and> platforms (searchParams
      (fst (run [PlatformChange ''flexjobs'', PlatformChange ''remotive''] initial_discovery))) =
     [''flexjobs'', ''remotive'']
   \<and> platforms (searchParams (handlePlatformToggle ''flexjobs'' (handlePlatformToggle ''flexjobs''
      (fst (run [PlatformChange ''flexjobs'', PlatformChange ''remotive''] initial_discovery))))) =
     [''remotive'', ''flexjobs'']
   \<and> platforms (searchParams (handlePlatformToggle ''flexjobs'' (handlePlatformToggle ''flexjobs''
      (fst (run [PlatformChange ''flexjobs'', PlatformChange ''remotive''] initial_discovery))))) \<noteq>
     platforms (searchParams
      (fst (run [PlatformChange ''flexjobs'', PlatformChange ''remotive''] initial_discovery)))"
  by (simp add: initial_discovery_def handlePlatformToggle_def setSearchParams_def)

section \<open>The keyword list\<close>

lemma trimEnd_prefix: "trimEnd t @ rev (takeWhile isWhiteSpace (rev t)) = t"
  unfolding trimEnd_def
  by (metis rev_append rev_rev_ident takeWhile_dropWhile_id)

lemma trimEnd_idem: "trimEnd (trimEnd t) = trimEnd t"
  by (simp add: trimEnd_def)

lemma hd_trimEnd: "trimEnd t \<noteq> [] \<Longrightarrow> hd (trimEnd t) = hd t"
  by (metis hd_append2 trimEnd_prefix)

lemma trimStart_noop: "s = [] \<or> \<not> isWhiteSpace (hd s) \<Longrightarrow> trimStart s = s"
  by (cases s) (auto simp: trimStart_def)

lemma hd_trimStart: "trimStart s \<noteq> [] \<Longrightarrow> \<not> isWhiteSpace (hd (trimStart s))"
  unfolding trimStart_def by (simp add: hd_dropWhile)

text \<open>Trimming a trimmed string changes nothing.\<close>

lemma trim_idem: "trim (trim s) = trim s"
proof -
  let ?t = "trimStart s"
  have "trimEnd ?t = [] \<or> \<not> isWhiteSpace (hd (trimEnd ?t))"
  proof (cases "trimEnd ?t = []")
    case True
    then show ?thesis by simp
  next
    case False
    then have "?t \<noteq> []" by (auto simp: trimEnd_def)
    with False show ?thesis by (simp add: hd_trimEnd hd_trimStart)
  qed
  then have "trimStart (trimEnd ?t) = trimEnd ?t" by (rule trimStart_noop)
  then show ?thesis by (simp add: trim_def trimEnd_idem)
qed

lemma keywords_add:
  "keywords_sp (searchParams (handleKeywordAdd st)) =
     (if trim (newKeyword st) \<noteq> [] \<and> trim (newKeyword st) \<notin> set (keywords_sp (searchParams st))
      then keywords_sp (searchParams st) @ [trim (newKeyword st)]
      else keywords_sp (searchParams st))"
  by (simp add: handleKeywordAdd_def setSearchParams_def setNewKeyword_def)

lemma keywords_remove:
  "keywords_sp (searchParams (handleKeywordRemove k st)) =
     filter (\<lambda>x. x \<noteq> k) (keywords_sp (searchParams st))"
  by (simp add: handleKeywordRemove_def setSearchParams_def)

lemma keywords_ok_add:
  "keywords_ok (keywords_sp (searchParams st)) \<Longrightarrow>
   keywords_ok (keywords_sp (searchParams (handleKeywordAdd st)))"
  by (simp add: keywords_add keywords_ok_def trim_idem)

lemma keywords_ok_remove:
  "keywords_ok (keywords_sp (searchParams st)) \<Longrightarrow>
   keywords_ok (keywords_sp (searchParams (handleKeywordRemove k st)))"
  by (auto simp: keywords_remove keywords_ok_def list_all_iff)

text \<open>Only the add and remove handlers touch the keyword list.\<close>

lemma keywords_step:
  "keywords_sp (searchParams (fst (step e st))) =
     (case e of
        AddClick \<Rightarrow> keywords_sp (searchParams (handleKeywordAdd st))
      | NewKeywordKeyPress key \<Rightarrow>
          (if key = ''Enter'' then keywords_sp (searchParams (handleKeywordAdd st))
           else keywords_sp (searchParams st))
      | RemoveClick k \<Rightarrow> keywords_sp (searchParams (handleKeywordRemove k st))
      | _ \<Rightarrow> keywords_sp (searchParams st))"
  by (cases e)
     (simp_all add: setNewKeyword_def location_onChange_def jobType_onChange_def
        handlePlatformToggle_def maxResults_onChange_def setSearchParams_def handleSearch_def
        handleSearch_settled_def split: option.split)

lemma keywords_ok_step:
  "keywords_ok (keywords_sp (searchParams st)) \<Longrightarrow>
   keywords_ok (keywords_sp (searchParams (fst (step e st))))"
  unfolding keywords_step by (cases e) (simp_all add: keywords_ok_add keywords_ok_remove)

lemma fst_run_Cons: "fst (run (e # es) st) = fst (run es (fst (step e st)))"
  by (simp split: prod.split)

lemma snd_run_Cons: "snd (run (e # es) st) = snd (step e st) @ snd (run es (fst (step e st)))"
  by (simp split: prod.split)

lemma keywords_ok_run:
  "keywords_ok (keywords_sp (searchParams st)) \<Longrightarrow>
   keywords_ok (keywords_sp (searchParams (fst (run evs st))))"
proof (induction evs arbitrary: st)
  case Nil
  then show ?case by simp
next
  case (Cons e evs)
  from Cons.prems have "keywords_ok (keywords_sp (searchParams (fst (step e st))))"
    by (rule keywords_ok_step)
  then have "keywords_ok (keywords_sp (searchParams (fst (run evs (fst (step e st))))))"
    by (rule Cons.IH)
  then show ?case by (simp only: fst_run_Cons)
qed

lemma keywords_ok_initial: "keywords_ok (keywords_sp (searchParams initial_discovery))"
  by (simp add: initial_discovery_def keywords_ok_def trim_def trimStart_def trimEnd_def
      isWhiteSpace_def)

text \<open>
  C5. The keyword list of the Job Discovery form is always a duplicate-free list of
  non-blank trimmed strings: the invariant \<^const>\<open>keywords_ok\<close> holds of the initial
  form, every event of the form preserves it, and so it holds after every sequence of
  events. \<open>handleKeywordAdd\<close> appends the trimmed new keyword exactly when it is
  non-empty after trimming and not yet in the list, and changes nothing otherwise;
  \<open>handleKeywordRemove\<close> filters the list, so it only removes entries.
\<close>

theorem keywords_invariant:
  "keywords_ok (keywords_sp (searchParams initial_discovery))
   \<and> (keywords_ok (keywords_sp (searchParams st)) \<longrightarrow>
        keywords_ok (keywords_sp (searchParams (fst (step e st)))))
   \<and> keywords_ok (keywords_sp (searchParams (fst (run evs initial_discovery))))
   \<and> keywords_sp (searchParams (handleKeywordAdd st)) =
       (if trim (newKeyword st) \<noteq> [] \<and> trim (newKeyword st) \<notin> set (keywords_sp (searchParams st))
        then keywords_sp (searchParams st) @ [trim (newKeyword st)]
        else keywords_sp (searchParams st))
   \<and> keywords_sp (searchParams (handleKeywordRemove k st)) =
       filter (\<lambda>x. x \<noteq> k) (keywords_sp (searchParams st))
   \<and> set (keywords_sp (searchParams (handleKeywordRemove k st))) \<subseteq> set (keywords_sp (searchParams st))"
  by (simp add: keywords_ok_initial keywords_ok_step keywords_ok_run keywords_add keywords_remove)

text \<open>
  The theorem at the initial form with \<open>NLP\<close> typed between blanks and added, and along
  the events that try to add \<open>AI\<close> a second time and then remove \<open>linguistic\<close>.
\<close>

theorem keywords_invariant_witness:
  "keywords_ok (keywords_sp (searchParams initial_discovery))
   \<and> keywords_ok (keywords_sp (searchParams
        (fst (step AddClick (setNewKeyword ''  NLP   '' initial_discovery)))))
   \<and> keywords_sp (searchParams (fst (step AddClick (setNewKeyword ''  NLP   '' initial_discovery)))) =
       [''machine learning'', ''AI'', ''translation'', ''linguistic'', ''quality assessment'', ''NLP'']
   \<and> keywords_sp (searchParams (fst (run [NewKeywordChange '' AI '', AddClick, RemoveClick ''linguistic'']
        initial_discovery))) =
       [''machine learning'', ''AI'', ''translation'', ''quality assessment'']"
  using keywords_invariant [of "setNewKeyword ''  NLP   '' initial_discovery" AddClick
      "[NewKeywordChange '' AI '', AddClick, RemoveClick ''linguistic'']" "''linguistic''"]
  by (simp add: initial_discovery_def setNewKeyword_def handleKeywordAdd_def handleKeywordRemove_def
      setSearchParams_def trim_def trimStart_def trimEnd_def isWhiteSpace_def)

section \<open>Search submission\<close>

text \<open>Only a click on the enabled search button posts a request, and it posts one.\<close>

lemma step_posted:
  "snd (step e st) =
     (if e = SearchClick \<and> \<not> search_disabled st then [searchData (searchParams st)] else [])"
  by (cases e) (simp_all add: handleSearch_def)

lemma step_posted_keywords: "r \<in> set (snd (step e st)) \<Longrightarrow> keywords_body r \<noteq> []"
  by (auto simp: step_posted search_disabled_def searchData_def split: if_splits)

lemma run_posted_keywords: "r \<in> set (snd (run evs st)) \<Longrightarrow> keywords_body r \<noteq> []"
proof (induction evs arbitrary: st)
  case Nil
  then show ?case by simp
next
  case (Cons e evs)
  from Cons.prems have "r \<in> set (snd (step e st)) \<or> r \<in> set (snd (run evs (fst (step e st))))"
    by (simp only: snd_run_Cons set_append Un_iff)
  then show ?case
  proof
    assume "r \<in> set (snd (step e st))"
    then show ?thesis by (rule step_posted_keywords)
  next
    assume "r \<in> set (snd (run evs (fst (step e st))))"
    then show ?thesis by (rule Cons.IH)
  qed
qed

text \<open>
  C1. \<open>StartSearch\<close> rejects a request whose keyword set is empty with
  \<open>ValidationError\<close>. On the client, in every state of the form whose keyword list is
  empty the search button is disabled and a click on it posts nothing; so, from any
  state and along any sequence of events, every request body that is posted carries a
  non-empty keyword list (and \<open>StartSearch\<close> does not reject it).
\<close>

theorem search_needs_keywords:
  "(keywords_body req = [] \<longrightarrow> StartSearch fresh_id req = Inl ValidationError)
   \<and> (keywords_sp (searchParams st) = [] \<longrightarrow>
        search_disabled st \<and> snd (step SearchClick st) = [])
   \<and> (\<forall>r \<in> set (snd (run evs st)).
        keywords_body r \<noteq> [] \<and> StartSearch fresh_id r = Inr fresh_id)"
  by (auto simp: StartSearch_def search_disabled_def dest: run_posted_keywords)

text \<open>
  The theorem at a body with no keyword, at the form with all five initial keywords
  removed, and along the events that remove them, click the (disabled) button, add
  \<open>rust\<close> and click twice: one request is posted, with the keyword \<open>rust\<close>.
\<close>

theorem search_needs_keywords_witness:
  "StartSearch (1 :: nat) (searchData ((searchParams initial_discovery)\<lparr>keywords_sp := []\<rparr>)) =
     Inl ValidationError
   \<and> keywords_sp (searchParams (fst (run
        [RemoveClick ''machine learning'', RemoveClick ''AI'', RemoveClick ''translation'',
         RemoveClick ''linguistic'', RemoveClick ''quality assessment''] initial_discovery))) = []
   \<and> search_disabled (fst (run
        [RemoveClick ''machine learning'', RemoveClick ''AI'', RemoveClick ''translation'',
         RemoveClick ''linguistic'', RemoveClick ''quality assessment''] initial_discovery))
   \<and> snd (step SearchClick (fst (run
        [RemoveClick ''machine learning'', RemoveClick ''AI'', RemoveClick ''translation'',
         RemoveClick ''linguistic'', RemoveClick ''quality assessment''] initial_discovery))) = []
   \<and> map keywords_body (snd (run
        [RemoveClick ''machine learning'', RemoveClick ''AI'', RemoveClick ''translation'',
         RemoveClick ''linguistic'', RemoveClick ''quality assessment'', SearchClick,
         NewKeywordChange '' rust '', AddClick, SearchClick, SearchClick] initial_discovery)) =
       [[''rust'']]
   \<and> map (StartSearch (1 :: nat)) (snd (run
        [RemoveClick ''machine learning'', RemoveClick ''AI'', RemoveClick ''translation'',
         RemoveClick ''linguistic'', RemoveClick ''quality assessment'', SearchClick,
         NewKeywordChange '' rust '', AddClick, SearchClick, SearchClick] initial_discovery)) =
       [Inr 1]"
  using search_needs_keywords [of
      "searchData ((searchParams initial_discovery)\<lparr>keywords_sp := []\<rparr>)" 1
      "fst (run [RemoveClick ''machine learning'', RemoveClick ''AI'', RemoveClick ''translation'',
         RemoveClick ''linguistic'', RemoveClick ''quality assessment''] initial_discovery)"
      "[RemoveClick ''machine learning'', RemoveClick ''AI'', RemoveClick ''translation'',
         RemoveClick ''linguistic'', RemoveClick ''quality assessment'', SearchClick,
         NewKeywordChange '' rust '', AddClick, SearchClick, SearchClick]"]
  by (simp add: initial_discovery_def StartSearch_def searchData_def search_disabled_def
      handleKeywordRemove_def handleKeywordAdd_def setNewKeyword_def setSearchParams_def
      handleSearch_def trim_def trimStart_def trimEnd_def isWhiteSpace_def)

text \<open>
  C2 does not hold of the code. The input declares \<open>min="10"\<close> and \<open>max="100"\<close>, but
  its \<open>onChange\<close> handler stores \<open>parseInt(value) || 50\<close> unclamped, and the search
  button sends what is stored: with \<open>5\<close> typed into the field, the request that the
  next click posts has \<open>max_results_per_platform = 5\<close>; with \<open>1000\<close> typed, the form
  holds 1000.
\<close>

theorem max_results_outside_range:
  "map max_results_per_platform
     (snd (run [MaxResultsChange ''5'', SearchClick] initial_discovery)) = [5]
   \<and> maxResultsPerPlatform (searchParams (maxResults_onChange ''5'' initial_discovery)) = 5
   \<and> maxResultsPerPlatform (searchParams (maxResults_onChange ''1000'' initial_discovery)) = 1000"
  by (simp add: initial_discovery_def maxResults_onChange_def setSearchParams_def
      search_disabled_def handleSearch_def searchData_def orDefault_def parseInt_def
      trimStart_def isWhiteSpace_def isRadixDigit_def digitValue_def radixValue_def Let_def)

text \<open>
  C3. The \<open>platforms\<close> field of every request body that a click on the search button
  posts is \<open>null\<close> exactly when no platform is selected, and is the list of the selected
  platform ids otherwise.
\<close>

theorem platforms_null_iff_none_selected:
  assumes "r \<in> set (snd (step SearchClick st))"
  shows "(platforms_body r = None) = (platforms (searchParams st) = [])
       \<and> platforms_body r =
           (if platforms (searchParams st) = [] then None else Some (platforms (searchParams st)))"
  using assms by (auto simp: handleSearch_def searchData_def split: if_splits)

text \<open>The theorem at the initial form with \<open>remotive\<close> ticked.\<close>

theorem platforms_null_iff_none_selected_witness:
  "snd (handleSearch (handlePlatformToggle ''remotive'' initial_discovery))
     \<in> set (snd (step SearchClick (handlePlatformToggle ''remotive'' initial_discovery)))
   \<and> platforms_body (snd (handleSearch (handlePlatformToggle ''remotive'' initial_discovery))) =
       Some [''remotive'']
   \<and> platforms (searchParams (handlePlatformToggle ''remotive'' initial_discovery)) = [''remotive'']"
proof -
  have h: "snd (handleSearch (handlePlatformToggle ''remotive'' initial_discovery))
     \<in> set (snd (step SearchClick (handlePlatformToggle ''remotive'' initial_discovery)))"
    by (simp add: initial_discovery_def handlePlatformToggle_def setSearchParams_def
        search_disabled_def)
  show ?thesis
    using h platforms_null_iff_none_selected [OF h]
    by (simp add: initial_discovery_def handlePlatformToggle_def setSearchParams_def)
qed

section \<open>The Job List query\<close>











section \<open>The API base address of every request\<close>



section \<open>Editing an array field of the profile\<close>

text \<open>
  C9. When \<open>field\<close> holds an array and \<open>index\<close> is within its bounds,
  \<open>updateArrayField(field, index, value)\<close> succeeds; with the empty string as value it
  removes exactly the element at \<open>index\<close>, the others keeping their order, and with a
  non-empty value it replaces exactly that element; every other field of the form data
  is unchanged.
\<close>

theorem updateArrayField_in_bounds:
  assumes "formData field = Some (Items xs)" and "index < length xs"
  shows "\<exists>formData'. updateArrayField field index v formData = Inr formData'
     \<and> formData' field =
         Some (Items (if v = [] then take index xs @ drop (Suc index) xs
                      else xs[index := Some v]))
     \<and> (\<forall>g. g \<noteq> field \<longrightarrow> formData' g = formData g)"
  using assms
  by (simp add: updateArrayField_def spread_def splice1_def assign_index_def)

text \<open>
  The theorem at a form with a name and three skills, the second skill removed and
  then replaced.
\<close>

theorem updateArrayField_in_bounds_witness:
  "[''full_name'' \<mapsto> Text ''Ada'', ''skills'' \<mapsto> Items [Some ''ml'', Some ''nlp'', Some ''qa'']]
      ''skills'' = Some (Items [Some ''ml'', Some ''nlp'', Some ''qa''])
   \<and> (1 :: nat) < length [Some ''ml'', Some ''nlp'', Some ''qa'']
   \<and> updateArrayField ''skills'' 1 []
        [''full_name'' \<mapsto> Text ''Ada'', ''skills'' \<mapsto> Items [Some ''ml'', Some ''nlp'', Some ''qa'']]
      = Inr [''full_name'' \<mapsto> Text ''Ada'', ''skills'' \<mapsto> Items [Some ''ml'', Some ''qa'']]
   \<and> updateArrayField ''skills'' 1 ''rust''
        [''full_name'' \<mapsto> Text ''Ada'', ''skills'' \<mapsto> Items [Some ''ml'', Some ''nlp'', Some ''qa'']]
      = Inr [''full_name'' \<mapsto> Text ''Ada'', ''skills'' \<mapsto> Items [Some ''ml'', Some ''rust'', Some ''qa'']]"
  using updateArrayField_in_bounds [of
      "[''full_name'' \<mapsto> Text ''Ada'', ''skills'' \<mapsto> Items [Some ''ml'', Some ''nlp'', Some ''qa'']]"
      "''skills''" "[Some ''ml'', Some ''nlp'', Some ''qa'']" 1 "[]"]
    updateArrayField_in_bounds [of
      "[''full_name'' \<mapsto> Text ''Ada'', ''skills'' \<mapsto> Items [Some ''ml'', Some ''nlp'', Some ''qa'']]"
      "''skills''" "[Some ''ml'', Some ''nlp'', Some ''qa'']" 1 "''rust''"]
  by (simp add: updateArrayField_def spread_def splice1_def assign_index_def)


section \<open>The Analytics rates\<close>

lemma rate_bounds:
  fixes x t :: int
  assumes "0 < t" "0 \<le> x" "x \<le> t"
  shows "0 \<le> (of_int x / of_int t * 100 :: rat) \<and> (of_int x / of_int t * 100 :: rat) \<le> 100"
proof -
  from assms have "0 < (of_int t :: rat)" "0 \<le> (of_int x :: rat)" "(of_int x :: rat) \<le> of_int t"
    by simp_all
  then show ?thesis by (simp add: divide_le_eq)
qed

text \<open>
  C10. The rate computations never divide by zero: \<open>interviewRate\<close>, \<open>rejectionRate\<close>,
  \<open>pendingRate\<close> and \<open>emailSuccessRate\<close> are always finite numbers (never \<open>NaN\<close> or
  an infinity), each is 0 when its denominator (the total of applications, the number
  of email logs) is 0, and each lies in \<open>[0,100]\<close> when its count is between 0 and its
  total (which the count of sent emails always is).
\<close>

theorem rates_defined_and_bounded:
  "(\<exists>r. interviewRate m = Num r
        \<and> (totalApplications m = 0 \<longrightarrow> r = 0)
        \<and> (0 \<le> orDefault (interviewing m) 0 \<and> orDefault (interviewing m) 0 \<le> totalApplications m
             \<longrightarrow> 0 \<le> r \<and> r \<le> 100))
   \<and> (\<exists>r. rejectionRate m = Num r
        \<and> (totalApplications m = 0 \<longrightarrow> r = 0)
        \<and> (0 \<le> orDefault (rejected m) 0 \<and> orDefault (rejected m) 0 \<le> totalApplications m
             \<longrightarrow> 0 \<le> r \<and> r \<le> 100))
   \<and> (\<exists>r. pendingRate m = Num r
        \<and> (totalApplications m = 0 \<longrightarrow> r = 0)
        \<and> (0 \<le> orDefault (pending_applications m) 0
               \<and> orDefault (pending_applications m) 0 \<le> totalApplications m
             \<longrightarrow> 0 \<le> r \<and> r \<le> 100))
   \<and> (\<exists>r. emailSuccessRate emailLogs = Num r
        \<and> (length emailLogs = 0 \<longrightarrow> r = 0)
        \<and> 0 \<le> r \<and> r \<le> 100)"
proof -
  have email: "\<exists>r. emailSuccessRate emailLogs = Num r
        \<and> (length emailLogs = 0 \<longrightarrow> r = 0) \<and> 0 \<le> r \<and> r \<le> 100"
  proof (cases "emailLogs = []")
    case True
    then show ?thesis by (simp add: emailSuccessRate_def)
  next
    case False
    have "sentEmails emailLogs \<le> length emailLogs" by (simp add: sentEmails_def)
    then have "0 \<le> int (sentEmails emailLogs)" "int (sentEmails emailLogs) \<le> int (length emailLogs)"
      by simp_all
    moreover from False have "0 < int (length emailLogs)" by simp
    ultimately have "0 \<le> (of_int (int (sentEmails emailLogs)) / of_int (int (length emailLogs)) * 100 :: rat)
       \<and> (of_int (int (sentEmails emailLogs)) / of_int (int (length emailLogs)) * 100 :: rat) \<le> 100"
      by (intro rate_bounds)
    with False show ?thesis
      by (simp add: emailSuccessRate_def divide_num_def times_num_def)
  qed
  have rate: "\<exists>r. (if t > 0 then times_num (divide_num (of_int x) (of_int t)) 100 else Num 0) = Num r
        \<and> (t = 0 \<longrightarrow> r = 0) \<and> (0 \<le> x \<and> x \<le> t \<longrightarrow> 0 \<le> r \<and> r \<le> 100)" for x t :: int
  proof (cases "t > 0")
    case True
    then show ?thesis using rate_bounds [of t x]
      by (simp add: divide_num_def times_num_def)
  next
    case False
    then show ?thesis by simp
  qed
  show ?thesis
    using email rate [of "totalApplications m" "orDefault (interviewing m) 0"]
      rate [of "totalApplications m" "orDefault (rejected m) 0"]
      rate [of "totalApplications m" "orDefault (pending_applications m) 0"]
    unfolding interviewRate_def rejectionRate_def pendingRate_def
    by blast
qed

text \<open>
  The theorem at metrics with 8 applications, 2 of them interviewing, no \<open>rejected\<close>
  property and 8 pending, and at a log with one sent and one failed email; and the
  rates when the total is absent and the log is empty.
\<close>

theorem rates_defined_and_bounded_witness:
  "interviewRate \<lparr>total_applications = Some 8, interviewing = Some 2, rejected = None,
       pending_applications = Some 8\<rparr> = Num 25
   \<and> rejectionRate \<lparr>total_applications = Some 8, interviewing = Some 2, rejected = None,
       pending_applications = Some 8\<rparr> = Num 0
   \<and> pendingRate \<lparr>total_applications = Some 8, interviewing = Some 2, rejected = None,
       pending_applications = Some 8\<rparr> = Num 100
   \<and> 0 \<le> orDefault (interviewing \<lparr>total_applications = Some 8, interviewing = Some 2,
       rejected = None, pending_applications = Some 8\<rparr>) 0
   \<and> orDefault (interviewing \<lparr>total_applications = Some 8, interviewing = Some 2,
       rejected = None, pending_applications = Some 8\<rparr>) 0
       \<le> totalApplications \<lparr>total_applications = Some 8, interviewing = Some 2,
       rejected = None, pending_applications = Some 8\<rparr>
   \<and> emailSuccessRate [\<lparr>status = ''sent''\<rparr>, \<lparr>status = ''failed''\<rparr>] = Num 50
   \<and> totalApplications \<lparr>total_applications = None, interviewing = Some 2, rejected = Some 1,
       pending_applications = Some 3\<rparr> = 0
   \<and> interviewRate \<lparr>total_applications = None, interviewing = Some 2, rejected = Some 1,
       pending_applications = Some 3\<rparr> = Num 0
   \<and> emailSuccessRate [] = Num 0"
  using rates_defined_and_bounded [of
      "\<lparr>total_applications = Some 8, interviewing = Some 2, rejected = None,
        pending_applications = Some 8\<rparr>"
      "[\<lparr>status = ''sent''\<rparr>, \<lparr>status = ''failed''\<rparr>]"]
    rates_defined_and_bounded [of
      "\<lparr>total_applications = None, interviewing = Some 2, rejected = Some 1,
        pending_applications = Some 3\<rparr>" "[]"]
  by (simp add: interviewRate_def rejectionRate_def pendingRate_def totalApplications_def
      orDefault_def emailSuccessRate_def sentEmails_def divide_num_def times_num_def)


section \<open>The relevance score\<close>

text \<open>\<^const>\<open>includes_str\<close> is the substring relation.\<close>

lemma startsWith_iff: "startsWith s p = (\<exists>b. s = p @ b)"
  by (induction s p rule: startsWith.induct) auto

lemma includes_str_iff: "includes_str s p = (\<exists>a b. s = a @ p @ b)"
proof (induction s)
  case Nil
  then show ?case by auto
next
  case (Cons c cs)
  have "(\<exists>a b. c # cs = a @ p @ b) = ((\<exists>b. c # cs = p @ b) \<or> (\<exists>a b. cs = a @ p @ b))"
  proof
    assume "\<exists>a b. c # cs = a @ p @ b"
    then obtain a b where ab: "c # cs = a @ p @ b" by blast
    show "(\<exists>b. c # cs = p @ b) \<or> (\<exists>a b. cs = a @ p @ b)"
    proof (cases a)
      case Nil
      with ab show ?thesis by auto
    next
      case (Cons x a')
      with ab have "cs = a' @ p @ b" by simp
      then show ?thesis by blast
    qed
  next
    assume "(\<exists>b. c # cs = p @ b) \<or> (\<exists>a b. cs = a @ p @ b)"
    then show "\<exists>a b. c # cs = a @ p @ b"
    proof
      assume "\<exists>b. c # cs = p @ b"
      then obtain b where "c # cs = [] @ p @ b" by auto
      then show ?thesis by blast
    next
      assume "\<exists>a b. cs = a @ p @ b"
      then obtain a b where "c # cs = (c # a) @ p @ b" by auto
      then show ?thesis by blast
    qed
  qed
  with Cons show ?case by (simp add: startsWith_iff)
qed

lemma appears_in_iff:
  "appears_in job_text keyword = (\<exists>a b. toLowerCase job_text = a @ toLowerCase keyword @ b)"
  by (simp add: appears_in_def includes_str_iff)

lemma score_value:
  "fst (Score job_text profile_keywords) =
     (if profile_keywords = [] then 0
      else min 1 (of_nat (card {k \<in> set profile_keywords. appears_in job_text k})
                  / of_nat (card (set profile_keywords))))"
proof -
  have "set (filter (appears_in job_text) profile_keywords) =
        {k \<in> set profile_keywords. appears_in job_text k}"
    by auto
  then have "length (remdups (filter (appears_in job_text) profile_keywords)) =
        card {k \<in> set profile_keywords. appears_in job_text k}"
    by (simp only: length_remdups_card_conv)
  then show ?thesis
    by (simp add: Score_def matched_keywords_def Let_def length_remdups_card_conv)
qed

lemma score_range:
  "0 \<le> fst (Score job_text profile_keywords) \<and> fst (Score job_text profile_keywords) \<le> 1"
  by (simp add: Score_def Let_def)

text \<open>
  C4. For every job text and every profile keyword set, the relevance score is in
  \<open>[0,1]\<close> and equals the count of distinct profile keywords that appear as
  case-insensitive substrings of the job text, divided by the count of profile keywords
  and capped at 1, where a keyword appears when its lower-cased form is a substring of
  the lower-cased job text; the matched keywords are the profile keywords that appear,
  in the profile's order; with zero profile keywords the score is 0 and the matched
  list is empty, not an error.
\<close>

theorem score_in_unit_interval:
  "0 \<le> fst (Score job_text profile_keywords)
   \<and> fst (Score job_text profile_keywords) \<le> 1
   \<and> fst (Score job_text profile_keywords) =
       (if profile_keywords = [] then 0
        else min 1 (of_nat (card {k \<in> set profile_keywords. appears_in job_text k})
                    / of_nat (card (set profile_keywords))))
   \<and> appears_in job_text k = (\<exists>a b. toLowerCase job_text = a @ toLowerCase k @ b)
   \<and> snd (Score job_text profile_keywords) = filter (appears_in job_text) profile_keywords
   \<and> (profile_keywords = [] \<longrightarrow> Score job_text profile_keywords = (0, []))"
proof -
  have "snd (Score job_text profile_keywords) = filter (appears_in job_text) profile_keywords"
    by (simp add: Score_def matched_keywords_def Let_def)
  moreover have "profile_keywords = [] \<longrightarrow> Score job_text profile_keywords = (0, [])"
    by (simp add: Score_def)
  ultimately show ?thesis
    using score_range [of job_text profile_keywords] score_value [of job_text profile_keywords]
      appears_in_iff [of job_text k]
    by simp
qed

text \<open>
  The theorem at a job text in which two of three profile keywords appear, in another
  letter case, and at the empty profile.
\<close>

theorem score_in_unit_interval_witness:
  "Score ''Machine Learning engineer for AI products'' [''machine learning'', ''ai'', ''rust''] =
     (2 / 3, [''machine learning'', ''ai''])
   \<and> 0 \<le> fst (Score ''Machine Learning engineer for AI products''
                 [''machine learning'', ''ai'', ''rust''])
   \<and> fst (Score ''Machine Learning engineer for AI products''
                 [''machine learning'', ''ai'', ''rust'']) \<le> 1
   \<and> Score ''Machine Learning engineer for AI products'' [] = (0, [])"
proof -
  have computed: "Score ''Machine Learning engineer for AI products''
      [''machine learning'', ''ai'', ''rust''] = (2 / 3, [''machine learning'', ''ai''])"
    by code_simp
  have bounded: "0 \<le> fst (Score ''Machine Learning engineer for AI products''
                 [''machine learning'', ''ai'', ''rust''])
     \<and> fst (Score ''Machine Learning engineer for AI products''
                 [''machine learning'', ''ai'', ''rust'']) \<le> 1"
    using score_in_unit_interval [of "''Machine Learning engineer for AI products''"
      "[''machine learning'', ''ai'', ''rust'']"] by blast
  have none: "Score ''Machine Learning engineer for AI products'' [] = (0, [])"
    using score_in_unit_interval [of "''Machine Learning engineer for AI products''" "[]"]
    by blast
  from computed bounded none show ?thesis by blast
qed

end
